theory Spec2Isabelle
  imports Main "HOL-Library.Sublist" "HOL-Library.Word"
begin

section \<open>The values of proxy.go\<close>

text \<open>
  An \<open>http.Header\<close> is a Go map from a header name to the list of its values. Header
  names are taken in the canonical form in which net/http stores them (\<open>Set\<close>,
  \<open>Add\<close> and \<open>Get\<close> canonicalise the key they are given). A Go \<open>error\<close> is modelled
  by its message, which is what \<open>%v\<close> prints.
\<close>

type_synonym header = "string \<Rightarrow> string list option"

type_synonym error = string

type_synonym int64 = "64 word"

definition Header_Set :: "header \<Rightarrow> string \<Rightarrow> string \<Rightarrow> header" where
  "Header_Set h k v = h(k \<mapsto> [v])"

definition Header_Add :: "header \<Rightarrow> string \<Rightarrow> string \<Rightarrow> header" where
  "Header_Add h k v = h(k \<mapsto> (case h k of None \<Rightarrow> [] | Some vs \<Rightarrow> vs) @ [v])"

definition Header_Get :: "header \<Rightarrow> string \<Rightarrow> string" where
  "Header_Get h k = (case h k of None \<Rightarrow> [] | Some [] \<Rightarrow> [] | Some (v # _) \<Rightarrow> v)"

text \<open>The fields of \<open>*http.Request\<close> that proxy.go reads; \<open>Path\<close> is \<open>r.URL.Path\<close>.\<close>

record request =
  Method :: string
  Host :: string
  Path :: string
  RequestURI :: string
  Proto :: string
  RemoteAddr :: string
  Header :: header

definition Referer :: "request \<Rightarrow> string" where
  "Referer r = Header_Get (Header r) ''Referer''"

definition UserAgent :: "request \<Rightarrow> string" where
  "UserAgent r = Header_Get (Header r) ''User-Agent''"

text \<open>
  The freebie store of a service (interface \<open>freebie.DB\<close>): the answers its two methods
  give when they are called for a request and a remote IP. ServeHTTP discards the first
  result of \<open>TallyFreebie\<close>, so only its error is kept. What a call changes inside the
  store is not modelled: ServeHTTP calls each method once at most.
\<close>

record freebie_db =
  CanPass :: "request \<Rightarrow> string \<Rightarrow> error + bool"
  TallyFreebie :: "request \<Rightarrow> string \<Rightarrow> error option"

text \<open>
  The fields of \<open>Service\<close> that the modelled functions read. The services of a slice
  \<open>[]*Service\<close> are held by value. \<open>freebieDb\<close> is the store that prepareServices
  installs for a service with a freebie level; it is read on the freebie path only.
\<close>

record service =
  Name :: string
  Address :: string
  HostRegexp :: string
  PathRegexp :: string
  TLSCertPath :: string
  Price :: int64
  freebieDb :: freebie_db

text \<open>
  Modelled from the spec: the type of \<open>target.AuthRequired(r)\<close>, declared in a file that
  is not among the sources. The spec's data model gives it the three values Open, Paid
  and LimitedFree; \<open>IsOn\<close> holds of Paid and \<open>IsFreebie\<close> of LimitedFree.
\<close>

datatype auth_level = Open | Paid | LimitedFree

definition IsOn :: "auth_level \<Rightarrow> bool" where
  "IsOn l = (l = Paid)"

definition IsFreebie :: "auth_level \<Rightarrow> bool" where
  "IsFreebie l = (l = LimitedFree)"

text \<open>
  What proxy.go calls outside itself, as parameters:
  \<^item> \<open>MustCompile\<close>: regexp.MustCompile followed by MatchString; \<open>None\<close> is the panic of
    MustCompile on a pattern that does not parse, \<open>Some m\<close> the compiled pattern, where
    \<open>m s\<close> tells whether it matches the string \<open>s\<close>;
  \<^item> \<open>AuthRequired\<close>: the method of Service of that name;
  \<^item> \<open>RemoteIP\<close>: the address that NewRemoteIPPrefixLog parses from \<open>r.RemoteAddr\<close>;
  \<^item> \<open>prepareServices\<close>: the function of that name (its error; \<open>TLSCertPath\<close>, which
    certPool reads afterwards, is taken as it leaves it);
  \<^item> \<open>ReadFile\<close>: ioutil.ReadFile on the file system of the moment;
  \<^item> \<open>AppendCertsFromPEM\<close>: the method of x509.CertPool, from the pool and the bytes to
    its result and the pool afterwards.
\<close>

record env =
  MustCompile :: "string \<Rightarrow> (string \<Rightarrow> bool) option"
  AuthRequired :: "service \<Rightarrow> request \<Rightarrow> auth_level"
  RemoteIP :: "string \<Rightarrow> string"
  prepareServices :: "service list \<Rightarrow> error option"
  ReadFile :: "string \<Rightarrow> error + string"
  AppendCertsFromPEM :: "string list \<Rightarrow> string \<Rightarrow> bool \<times> string list"

text \<open>
  What a call leaves behind besides its result: the lines it logs, each with the level of
  the logging call and the formatted message, and the calls it makes to the authenticator
  and to the freebie store, in order.
\<close>

datatype level = Tracef | Debugf | Infof | Errorf

datatype event =
  Log level string
  | AcceptCall string
  | CanPassCall string
  | TallyFreebieCall string
  | FreshChallengeHeaderCall string int64

text \<open>The calls among the events of a trace, without the log lines.\<close>

fun is_call :: "event \<Rightarrow> bool" where
  "is_call (Log l m) = False"
| "is_call ev = True"

definition calls :: "event list \<Rightarrow> event list" where
  "calls evs = filter is_call evs"

section \<open>matchService\<close>

text \<open>
  The result of matchService: \<open>(service, true)\<close>, \<open>(nil, false)\<close>, or the panic of
  regexp.MustCompile, with the pattern that did not compile.
\<close>

datatype matched = Matched service | NoMatch | MustCompilePanic string

fun matchService :: "env \<Rightarrow> request \<Rightarrow> service list \<Rightarrow> matched \<times> event list" where
  "matchService e req [] =
     (NoMatch,
      [Log Errorf (''No backend service matched request ['' @ Host req @ Path req @ ''].'')])"
| "matchService e req (s # rest) =
     (case MustCompile e (HostRegexp s) of
        None \<Rightarrow> (MustCompilePanic (HostRegexp s), [])
      | Some hostRegexp \<Rightarrow>
          if \<not> hostRegexp (Host req) then
            apsnd ((#) (Log Tracef (''Req host ['' @ Host req @ ''] doesn't match [''
                @ HostRegexp s @ ''].'')))
              (matchService e req rest)
          else if PathRegexp s = [] then
            (Matched s,
             [Log Debugf (''Host ['' @ Host req @ ''] matched pattern ['' @ HostRegexp s
                @ ''] and path expression is empty. Using service ['' @ Address s @ ''].'')])
          else
            (case MustCompile e (PathRegexp s) of
               None \<Rightarrow> (MustCompilePanic (PathRegexp s), [])
             | Some pathRegexp \<Rightarrow>
                 if \<not> pathRegexp (Path req) then
                   apsnd ((#) (Log Tracef (''Req path ['' @ Path req @ ''] doesn't match [''
                       @ PathRegexp s @ ''].'')))
                     (matchService e req rest)
                 else
                   (Matched s,
                    [Log Debugf (''Host ['' @ Host req @ ''] matched pattern ['' @ HostRegexp s
                       @ ''] and path ['' @ Path req @ ''] matched ['' @ PathRegexp s
                       @ '']. Using service ['' @ Address s @ ''].'')])))"

text \<open>
  The matching rule in the spec's words: a service matches if its host pattern matches
  the request's host and its path pattern is empty or matches the request's path. A
  pattern that does not compile matches nothing.
\<close>

definition pattern_matches :: "env \<Rightarrow> string \<Rightarrow> string \<Rightarrow> bool" where
  "pattern_matches e pat s = (case MustCompile e pat of None \<Rightarrow> False | Some m \<Rightarrow> m s)"

definition spec_matches :: "env \<Rightarrow> request \<Rightarrow> service \<Rightarrow> bool" where
  "spec_matches e req s =
     (pattern_matches e (HostRegexp s) (Host req)
      \<and> (PathRegexp s = [] \<or> pattern_matches e (PathRegexp s) (Path req)))"

definition valid_patterns :: "env \<Rightarrow> service \<Rightarrow> bool" where
  "valid_patterns e s =
     (MustCompile e (HostRegexp s) \<noteq> None
      \<and> (PathRegexp s = [] \<or> MustCompile e (PathRegexp s) \<noteq> None))"

section \<open>Direct responses\<close>

text \<open>
  What the client receives when the gateway answers by itself: the status code given to
  \<open>WriteHeader\<close>, the header of the response writer at that moment, and the bytes written
  as the body.
\<close>

record response =
  StatusCode :: int
  RespHeader :: header
  Body :: string

definition hdrContentType :: string where
  "hdrContentType = ''Content-Type''"

definition hdrTypeGrpc :: string where
  "hdrTypeGrpc = ''application/grpc''"

definition StatusOK :: int where
  "StatusOK = 200"

definition StatusPaymentRequired :: int where
  "StatusPaymentRequired = 402"

definition StatusInternalServerError :: int where
  "StatusInternalServerError = 500"

text \<open>\<open>codes.Internal\<close> of google.golang.org/grpc/codes, and strconv.Itoa.\<close>

definition codes_Internal :: int where
  "codes_Internal = 13"

definition digit :: "nat \<Rightarrow> char" where
  "digit n = ''0123456789'' ! n"

fun decimal :: "nat \<Rightarrow> string" where
  "decimal n = (if n < 10 then [digit n] else decimal (n div 10) @ [digit (n mod 10)])"

definition Itoa :: "int \<Rightarrow> string" where
  "Itoa i = (if i < 0 then CHR ''-'' # decimal (nat (- i)) else decimal (nat i))"

text \<open>
  \<open>http.Error(w, error, code)\<close> of net/http: it sets the two header fields, writes the
  status code, and prints the message and a newline as the body (\<open>fmt.Fprintln\<close>).
\<close>

definition http_Error :: "header \<Rightarrow> string \<Rightarrow> int \<Rightarrow> response" where
  "http_Error w err c =
     \<lparr>StatusCode = c,
      RespHeader = Header_Set (Header_Set w ''Content-Type'' ''text/plain; charset=utf-8'')
                     ''X-Content-Type-Options'' ''nosniff'',
      Body = err @ [CHR 0x0A]\<rparr>"

text \<open>
  sendDirectResponse, from the header of the response writer \<open>w\<close> so far. The gRPC branch
  writes the status code and no body.
\<close>

definition sendDirectResponse :: "header \<Rightarrow> request \<Rightarrow> int \<Rightarrow> string \<Rightarrow> response" where
  "sendDirectResponse w r statusCode errInfo =
     (if prefix hdrTypeGrpc (Header_Get (Header r) hdrContentType) then
        \<lparr>StatusCode = statusCode,
         RespHeader = Header_Set (Header_Set w ''Grpc-Status'' (Itoa codes_Internal))
                        ''Grpc-Message'' errInfo,
         Body = []\<rparr>
      else http_Error w errInfo statusCode)"

text \<open>
  The two encodings of a direct response to the request \<open>r\<close>: for a gRPC client the two
  header fields, each with one value, and no body; for any other client a text/plain body
  that ends with a newline.
\<close>

definition direct_shape :: "request \<Rightarrow> response \<Rightarrow> bool" where
  "direct_shape r resp =
     (if prefix hdrTypeGrpc (Header_Get (Header r) hdrContentType) then
        RespHeader resp ''Grpc-Status'' = Some [''13'']
        \<and> (case RespHeader resp ''Grpc-Message'' of Some [m] \<Rightarrow> True | _ \<Rightarrow> False)
        \<and> Body resp = []
      else
        Body resp \<noteq> [] \<and> last (Body resp) = CHR 0x0A
        \<and> RespHeader resp ''Content-Type'' = Some [''text/plain; charset=utf-8''])"

text \<open>The header names that sendDirectResponse sets in answer to the request \<open>r\<close>.\<close>

definition sendDirectResponse_names :: "request \<Rightarrow> string set" where
  "sendDirectResponse_names r =
     (if prefix hdrTypeGrpc (Header_Get (Header r) hdrContentType)
      then {''Grpc-Status'', ''Grpc-Message''}
      else {''Content-Type'', ''X-Content-Type-Options''})"

text \<open>addCorsHeaders on a header, and the line it logs.\<close>

definition addCorsHeaders :: "header \<Rightarrow> header" where
  "addCorsHeaders h =
     Header_Add
       (Header_Add
         (Header_Add
           (Header_Add h ''Access-Control-Allow-Origin'' ''*'')
           ''Access-Control-Allow-Methods'' ''GET, POST, OPTIONS'')
         ''Access-Control-Expose-Headers'' ''WWW-Authenticate'')
       ''Access-Control-Allow-Headers''
       ''Authorization, Grpc-Metadata-macaroon, WWW-Authenticate''"

definition addCorsHeaders_log :: event where
  "addCorsHeaders_log = Log Debugf ''Adding CORS headers to response.''"

section \<open>The proxy\<close>

text \<open>
  The authenticator (interface \<open>auth.Authenticator\<close>), by the answers of its two
  methods. The header set that \<open>FreshChallengeHeader\<close> returns is a Go map; it is given
  as the list of its entries in the order in which the \<open>range\<close> loop of
  handlePaymentRequired visits them.
\<close>

record authenticator =
  Accept :: "header \<Rightarrow> string \<Rightarrow> bool"
  FreshChallengeHeader :: "request \<Rightarrow> string \<Rightarrow> int64 \<Rightarrow> error + (string \<times> string list) list"

text \<open>
  The \<open>http.Transport\<close> and \<open>httputil.ReverseProxy\<close> that UpdateServices builds. The
  \<open>Director\<close> of the reverse proxy is always \<open>p.director\<close> and its \<open>ModifyResponse\<close>
  always adds the CORS headers to the backend's response, so neither is a field here.
  A certificate pool is the list of the PEM data appended to it.
\<close>

record transport =
  ForceAttemptHTTP2 :: bool
  RootCAs :: "string list"
  InsecureSkipVerify :: bool

record reverse_proxy =
  Transport :: transport
  FlushInterval :: int

datatype static_server = NotFoundHandler | FileServer string

text \<open>A \<open>Proxy\<close> as \<open>New\<close> returns it: all four fields are set.\<close>

record proxy =
  proxyBackend :: reverse_proxy
  staticServer :: static_server
  authenticator :: authenticator
  services :: "service list"

text \<open>
  How a call of ServeHTTP ends: with a response of the gateway's own, with the request
  handed to the static server (\<open>p.staticServer.ServeHTTP\<close>) or to the reverse proxy
  (\<open>p.proxyBackend.ServeHTTP\<close>), or with a panic, of which a short message is kept.
\<close>

datatype outcome =
  Responded response
  | ServedStatic static_server
  | Forwarded reverse_proxy
  | Panicked string

text \<open>The status code, the body and a header field of the response of an outcome.\<close>

fun status_of :: "outcome \<Rightarrow> int option" where
  "status_of (Responded resp) = Some (StatusCode resp)"
| "status_of out = None"

fun body_of :: "outcome \<Rightarrow> string option" where
  "body_of (Responded resp) = Some (Body resp)"
| "body_of out = None"

fun header_of :: "outcome \<Rightarrow> string \<Rightarrow> string list option" where
  "header_of (Responded resp) n = RespHeader resp n"
| "header_of out n = None"

text \<open>
  The loop of handlePaymentRequired over the challenge header: \<open>Set\<close> for the first value
  of a name, \<open>Add\<close> for the others. \<open>value[0]\<close> of an entry without values is out of
  range, which panics (\<open>None\<close>).
\<close>

fun setChallengeHeader :: "header \<Rightarrow> (string \<times> string list) list \<Rightarrow> header option" where
  "setChallengeHeader w [] = Some w"
| "setChallengeHeader w ((name, []) # rest) = None"
| "setChallengeHeader w ((name, v # vs) # rest) =
     setChallengeHeader (foldl (\<lambda>h x. Header_Add h name x) (Header_Set w name v) vs) rest"

definition handlePaymentRequired ::
    "proxy \<Rightarrow> header \<Rightarrow> request \<Rightarrow> string \<Rightarrow> int64 \<Rightarrow> outcome \<times> event list" where
  "handlePaymentRequired p w r serviceName servicePrice =
     (let r' = r\<lparr>Header := addCorsHeaders (Header r)\<rparr>;
          evs = [addCorsHeaders_log, FreshChallengeHeaderCall serviceName servicePrice]
      in case FreshChallengeHeader (authenticator p) r' serviceName servicePrice of
           Inl err \<Rightarrow>
             (Responded (sendDirectResponse w r' StatusInternalServerError ''challenge failure''),
              evs @ [Log Errorf (''Error creating new challenge header: '' @ err)])
         | Inr hdr \<Rightarrow>
             (case setChallengeHeader w hdr of
                None \<Rightarrow> (Panicked ''index out of range'', evs)
              | Some w' \<Rightarrow>
                  (Responded (sendDirectResponse w' r' StatusPaymentRequired ''payment required''),
                   evs)))"

text \<open>The access log line of the deferred \<open>logRequest\<close>, in \<open>formatPattern\<close>.\<close>

definition logRequest :: "request \<Rightarrow> event" where
  "logRequest r =
     Log Infof (''- - '' @ [CHR 0x22] @ Method r @ '' '' @ RequestURI r @ '' '' @ Proto r
       @ [CHR 0x22] @ '' '' @ [CHR 0x22] @ Referer r @ [CHR 0x22] @ '' '' @ [CHR 0x22]
       @ UserAgent r @ [CHR 0x22])"

text \<open>
  The second half of ServeHTTP: the \<open>switch\<close> on the auth level of the matched
  service, which dispatches the request accordingly, down to the call of the reverse
  proxy. The response writer is fresh: its header is empty.
\<close>

definition dispatch :: "env \<Rightarrow> proxy \<Rightarrow> request \<Rightarrow> service \<Rightarrow> outcome \<times> event list" where
  "dispatch e p r target =
     (let authLevel = AuthRequired e target r;
          remoteIP = RemoteIP e (RemoteAddr r);
          accepted = Accept (authenticator p) (Header r) (Name target)
      in if IsOn authLevel then
           if \<not> accepted then
             apsnd ((@) [AcceptCall (Name target),
                         Log Infof ''Authentication failed. Sending 402.''])
               (handlePaymentRequired p Map.empty r (Name target) (Price target))
           else (Forwarded (proxyBackend p), [AcceptCall (Name target)])
         else if IsFreebie authLevel then
           if \<not> accepted then
             (case CanPass (freebieDb target) r remoteIP of
                Inl err \<Rightarrow>
                  (Responded (sendDirectResponse Map.empty r StatusInternalServerError
                     ''freebie DB failure''),
                   [AcceptCall (Name target), CanPassCall remoteIP,
                    Log Errorf (''Error querying freebie db: '' @ err)])
              | Inr ok \<Rightarrow>
                  if \<not> ok then
                    apsnd ((@) [AcceptCall (Name target), CanPassCall remoteIP])
                      (handlePaymentRequired p Map.empty r (Name target) (Price target))
                  else
                    (case TallyFreebie (freebieDb target) r remoteIP of
                       Some err \<Rightarrow>
                         (Responded (sendDirectResponse Map.empty r StatusInternalServerError
                            ''freebie DB failure''),
                          [AcceptCall (Name target), CanPassCall remoteIP,
                           TallyFreebieCall remoteIP,
                           Log Errorf (''Error updating freebie db: '' @ err)])
                     | None \<Rightarrow>
                         (Forwarded (proxyBackend p),
                          [AcceptCall (Name target), CanPassCall remoteIP,
                           TallyFreebieCall remoteIP])))
           else (Forwarded (proxyBackend p), [AcceptCall (Name target)])
         else (Forwarded (proxyBackend p), []))"

text \<open>
  ServeHTTP: the outcome and what the call leaves behind. The deferred \<open>logRequest\<close> runs
  last on every path, a panic included.
\<close>

definition ServeHTTP :: "env \<Rightarrow> proxy \<Rightarrow> request \<Rightarrow> outcome \<times> event list" where
  "ServeHTTP e p r =
     apsnd (\<lambda>evs. evs @ [logRequest r])
       (if Method r = ''OPTIONS'' then
          (Responded (sendDirectResponse (addCorsHeaders Map.empty) r StatusOK []),
           [addCorsHeaders_log])
        else
          (case matchService e r (services p) of
             (MustCompilePanic pat, evs) \<Rightarrow> (Panicked (''regexp: Compile: '' @ pat), evs)
           | (NoMatch, evs) \<Rightarrow>
               (ServedStatic (staticServer p),
                evs @ [Log Debugf (''Dispatching request '' @ Path r
                         @ '' to static file server.'')])
           | (Matched target, evs) \<Rightarrow> apsnd ((@) evs) (dispatch e p r target)))"

section \<open>UpdateServices\<close>

text \<open>
  certPool: the loop over the services, from the pool built so far; \<open>x509.NewCertPool()\<close>
  is the empty pool.
\<close>

fun certPoolFrom :: "env \<Rightarrow> string list \<Rightarrow> service list \<Rightarrow> error + string list" where
  "certPoolFrom e cp [] = Inr cp"
| "certPoolFrom e cp (s # rest) =
     (if TLSCertPath s = [] then certPoolFrom e cp rest
      else
        (case ReadFile e (TLSCertPath s) of
           Inl err \<Rightarrow> Inl err
         | Inr b \<Rightarrow>
             (case AppendCertsFromPEM e cp b of
                (False, cp') \<Rightarrow> Inl ''credentials: failed to append certificate''
              | (True, cp') \<Rightarrow> certPoolFrom e cp' rest)))"

definition certPool :: "env \<Rightarrow> service list \<Rightarrow> error + string list" where
  "certPool e svcs = certPoolFrom e [] svcs"

text \<open>UpdateServices: the error it returns, if any, and the proxy afterwards.\<close>

definition UpdateServices :: "env \<Rightarrow> proxy \<Rightarrow> service list \<Rightarrow> error option \<times> proxy" where
  "UpdateServices e p svcs =
     (case prepareServices e svcs of
        Some err \<Rightarrow> (Some err, p)
      | None \<Rightarrow>
          (case certPool e svcs of
             Inl err \<Rightarrow> (Some err, p)
           | Inr cp \<Rightarrow>
               (None,
                p\<lparr>proxyBackend :=
                    \<lparr>Transport =
                       \<lparr>ForceAttemptHTTP2 = True, RootCAs = cp, InsecureSkipVerify = True\<rparr>,
                     FlushInterval = - 1\<rparr>\<rparr>)))"

section \<open>A concrete setting\<close>

text \<open>
  The theorems below hold for every environment. Their instances at concrete inputs
  are taken in the following one. Its \<open>MustCompile\<close> stands for regexp.MustCompile on
  the patterns used here: a pattern of letters, digits, \<open>/\<close> and \<open>-\<close> compiles and matches
  every string that contains it, as it does in Go; every other pattern is rejected, as Go
  rejects the pattern \<open>(\<close>, whose parenthesis is never closed.
\<close>

definition literal_char :: "char \<Rightarrow> bool" where
  "literal_char c =
     (c \<in> set ''abcdefghijklmnopqrstuvwxyzABCDEFGHIJKLMNOPQRSTUVWXYZ0123456789/-'')"

definition literal_MustCompile :: "string \<Rightarrow> (string \<Rightarrow> bool) option" where
  "literal_MustCompile pat = (if list_all literal_char pat then Some (sublist pat) else None)"

definition sample_ReadFile :: "string \<Rightarrow> error + string" where
  "sample_ReadFile path =
     (if path = ''/etc/certs/backend.pem'' then Inr ''-----BEGIN CERTIFICATE-----''
      else if path = ''/etc/certs/notes.txt'' then Inr ''no certificate here''
      else Inl (''open '' @ path @ '': no such file or directory''))"

definition sample_AppendCertsFromPEM :: "string list \<Rightarrow> string \<Rightarrow> bool \<times> string list" where
  "sample_AppendCertsFromPEM cp b =
     (if prefix ''-----BEGIN CERTIFICATE-----'' b then (True, cp @ [b]) else (False, cp))"

definition sample_env :: "auth_level \<Rightarrow> env" where
  "sample_env lvl =
     \<lparr>MustCompile = literal_MustCompile,
      AuthRequired = (\<lambda>s r. lvl),
      RemoteIP = takeWhile (\<lambda>c. c \<noteq> CHR '':''),
      prepareServices = (\<lambda>svcs. None),
      ReadFile = sample_ReadFile,
      AppendCertsFromPEM = sample_AppendCertsFromPEM\<rparr>"

text \<open>
  An authenticator that accepts a request with an \<open>Authorization\<close> header field and
  answers \<open>FreshChallengeHeader\<close> with \<open>fresh\<close>; a freebie store with fixed answers.
\<close>

definition sample_authenticator :: "error + (string \<times> string list) list \<Rightarrow> authenticator" where
  "sample_authenticator fresh =
     \<lparr>Accept = (\<lambda>h name. h ''Authorization'' \<noteq> None),
      FreshChallengeHeader = (\<lambda>r name price. fresh)\<rparr>"

definition sample_challenge :: "(string \<times> string list) list" where
  "sample_challenge = [(''WWW-Authenticate'', [''LSAT macaroon=abc, invoice=lnbc1''])]"

definition sample_db :: "error + bool \<Rightarrow> error option \<Rightarrow> freebie_db" where
  "sample_db can tally = \<lparr>CanPass = (\<lambda>r ip. can), TallyFreebie = (\<lambda>r ip. tally)\<rparr>"

definition sample_service :: "string \<Rightarrow> string \<Rightarrow> string \<Rightarrow> string \<Rightarrow> freebie_db \<Rightarrow> service" where
  "sample_service name host path cert db =
     \<lparr>Name = name, Address = ''127.0.0.1:10009'', HostRegexp = host, PathRegexp = path,
      TLSCertPath = cert, Price = 100, freebieDb = db\<rparr>"

definition sample_backend :: reverse_proxy where
  "sample_backend =
     \<lparr>Transport = \<lparr>ForceAttemptHTTP2 = True, RootCAs = [], InsecureSkipVerify = True\<rparr>,
      FlushInterval = - 1\<rparr>"

definition sample_proxy :: "authenticator \<Rightarrow> service list \<Rightarrow> proxy" where
  "sample_proxy a svcs =
     \<lparr>proxyBackend = sample_backend, staticServer = NotFoundHandler, authenticator = a,
      services = svcs\<rparr>"

definition sample_request :: "string \<Rightarrow> string \<Rightarrow> string \<Rightarrow> header \<Rightarrow> request" where
  "sample_request m host path h =
     \<lparr>Method = m, Host = host, Path = path, RequestURI = path, Proto = ''HTTP/1.1'',
      RemoteAddr = ''203.0.113.7:51234'', Header = h\<rparr>"

definition open_db :: freebie_db where
  "open_db = sample_db (Inr True) None"

definition alpha_service :: service where
  "alpha_service = sample_service ''alpha'' ''alpha'' [] [] open_db"

definition special_service :: service where
  "special_service = sample_service ''special'' ''alpha'' ''/special'' [] open_db"

definition broken_service :: service where
  "broken_service = sample_service ''broken'' ''('' [] [] open_db"

definition broken_path_service :: service where
  "broken_path_service = sample_service ''broken-path'' ''alpha'' ''('' [] open_db"

definition challenger :: authenticator where
  "challenger = sample_authenticator (Inr sample_challenge)"

definition get_request :: "string \<Rightarrow> string \<Rightarrow> request" where
  "get_request host path = sample_request ''GET'' host path Map.empty"

definition grpc_request :: "string \<Rightarrow> string \<Rightarrow> request" where
  "grpc_request host path =
     sample_request ''POST'' host path [''Content-Type'' \<mapsto> [''application/grpc+proto'']]"

definition failing_challenger :: authenticator where
  "failing_challenger = sample_authenticator (Inl ''mint: no invoice'')"

definition paying_request :: "string \<Rightarrow> string \<Rightarrow> request" where
  "paying_request host path =
     sample_request ''GET'' host path [''Authorization'' \<mapsto> [''LSAT abc:def'']]"

definition freebie_service :: "freebie_db \<Rightarrow> service" where
  "freebie_service db = sample_service ''freebie'' ''alpha'' [] [] db"

definition closed_db :: freebie_db where
  "closed_db = sample_db (Inl ''store closed'') None"

definition exhausted_db :: freebie_db where
  "exhausted_db = sample_db (Inr False) None"

definition untallied_db :: freebie_db where
  "untallied_db = sample_db (Inr True) (Some ''store closed'')"

definition beta_service :: service where
  "beta_service = sample_service ''beta'' ''beta'' [] ''/etc/certs/backend.pem'' open_db"

definition bad_cert_service :: "string \<Rightarrow> service" where
  "bad_cert_service path = sample_service ''secure'' ''secure'' [] path open_db"

definition alpha_proxy :: proxy where
  "alpha_proxy = sample_proxy challenger [alpha_service]"

definition failing_proxy :: proxy where
  "failing_proxy = sample_proxy failing_challenger [alpha_service]"

definition freebie_proxy :: "freebie_db \<Rightarrow> proxy" where
  "freebie_proxy db = sample_proxy challenger [freebie_service db]"

definition data_request :: request where
  "data_request = get_request ''alpha.example.com'' ''/data''"

definition paid_request :: request where
  "paid_request = paying_request ''alpha.example.com'' ''/data''"

definition options_request :: request where
  "options_request = sample_request ''OPTIONS'' ''alpha.example.com'' ''/data'' Map.empty"

definition rpc_request :: request where
  "rpc_request = grpc_request ''alpha.example.com'' ''/rpc''"

definition special_request :: request where
  "special_request = get_request ''alpha.example.com'' ''/special/x''"

definition beta_request :: request where
  "beta_request = get_request ''beta.example.com'' ''/data''"

definition routed_proxy :: proxy where
  "routed_proxy = sample_proxy challenger [alpha_service, special_service]"

definition two_value_challenge :: "(string \<times> string list) list" where
  "two_value_challenge =
     [(''WWW-Authenticate'', [''LSAT macaroon=abc, invoice=lnbc1'', ''L402 macaroon=abc'']),
      (''Cache-Control'', [''no-store''])]"

definition two_value_proxy :: proxy where
  "two_value_proxy = sample_proxy (sample_authenticator (Inr two_value_challenge)) [alpha_service]"

definition updated_proxy :: proxy where
  "updated_proxy = snd (UpdateServices (sample_env Open) alpha_proxy [beta_service])"

section \<open>Properties\<close>

lemmas sample_simps =
  sample_env_def literal_MustCompile_def literal_char_def sample_ReadFile_def
  sample_AppendCertsFromPEM_def sample_service_def sample_db_def
  sample_request_def sample_proxy_def sample_authenticator_def sample_backend_def
  sample_challenge_def open_db_def alpha_service_def special_service_def
  broken_service_def broken_path_service_def challenger_def get_request_def
  grpc_request_def failing_challenger_def paying_request_def freebie_service_def
  closed_db_def exhausted_db_def untallied_db_def beta_service_def bad_cert_service_def
  alpha_proxy_def failing_proxy_def freebie_proxy_def data_request_def paid_request_def
  options_request_def rpc_request_def special_request_def beta_request_def routed_proxy_def
  two_value_challenge_def two_value_proxy_def updated_proxy_def
  valid_patterns_def spec_matches_def pattern_matches_def sublist_code(3)

subsection \<open>matchService\<close>

lemma matchService_find:
  "list_all (valid_patterns e) svcs \<Longrightarrow>
   fst (matchService e req svcs) =
     (case find (spec_matches e req) svcs of Some s \<Rightarrow> Matched s | None \<Rightarrow> NoMatch)"
  by (induction svcs)
    (auto simp: valid_patterns_def spec_matches_def pattern_matches_def split: option.splits)

lemma matchService_find_returns:
  "\<forall>pat. fst (matchService e req svcs) \<noteq> MustCompilePanic pat \<Longrightarrow>
   fst (matchService e req svcs) =
     (case find (spec_matches e req) svcs of Some s \<Rightarrow> Matched s | None \<Rightarrow> NoMatch)"
  by (induction svcs)
    (auto simp: spec_matches_def pattern_matches_def split: option.splits if_splits)

lemma matchService_skip:
  "\<forall>t\<in>set pre. valid_patterns e t \<and> \<not> spec_matches e req t \<Longrightarrow>
   fst (matchService e req (pre @ rest)) = fst (matchService e req rest)"
  by (induction pre)
    (auto simp: valid_patterns_def spec_matches_def pattern_matches_def split: option.splits)

lemma matchService_Matched_split:
  "fst (matchService e req svcs) = Matched s \<Longrightarrow>
   \<exists>pre post. svcs = pre @ s # post \<and> spec_matches e req s
     \<and> (\<forall>t\<in>set pre. \<not> spec_matches e req t)"
proof (induction svcs)
  case Nil
  then show ?case by simp
next
  case (Cons a svcs)
  show ?case
  proof (cases "spec_matches e req a")
    case True
    with Cons.prems have "a = s"
      by (auto simp: spec_matches_def pattern_matches_def split: option.splits if_splits)
    with True have "a # svcs = [] @ s # svcs \<and> spec_matches e req s
        \<and> (\<forall>t\<in>set []. \<not> spec_matches e req t)"
      by simp
    then show ?thesis by blast
  next
    case False
    with Cons.prems have "fst (matchService e req svcs) = Matched s"
      by (auto simp: spec_matches_def pattern_matches_def split: option.splits if_splits)
    from Cons.IH [OF this] obtain pre post where
      "svcs = pre @ s # post" "spec_matches e req s" "\<forall>t\<in>set pre. \<not> spec_matches e req t"
      by blast
    with False have "a # svcs = (a # pre) @ s # post \<and> spec_matches e req s
        \<and> (\<forall>t\<in>set (a # pre). \<not> spec_matches e req t)"
      by simp
    then show ?thesis by blast
  qed
qed

lemma matchService_NoMatch:
  "fst (matchService e req svcs) = NoMatch \<Longrightarrow> \<forall>t\<in>set svcs. \<not> spec_matches e req t"
  by (induction svcs)
    (auto simp: spec_matches_def pattern_matches_def split: option.splits if_splits)

lemma ServeHTTP_NoMatch:
  "Method req \<noteq> ''OPTIONS'' \<Longrightarrow> fst (matchService e req (services p)) = NoMatch \<Longrightarrow>
   fst (ServeHTTP e p req) = ServedStatic (staticServer p)"
  by (cases "matchService e req (services p)") (simp add: ServeHTTP_def)

lemma ServeHTTP_MustCompilePanic:
  "Method req \<noteq> ''OPTIONS'' \<Longrightarrow> fst (matchService e req (services p)) = MustCompilePanic pat \<Longrightarrow>
   fst (ServeHTTP e p req) = Panicked (''regexp: Compile: '' @ pat)"
  by (cases "matchService e req (services p)") (simp add: ServeHTTP_def)

text \<open>
  Claim C3, for the service lists on which matchService does not panic, as on every list
  whose patterns all compile: matchService returns the first service of the list, in list
  order, whose host pattern matches the request's host and whose path pattern is empty or
  matches the request's path; the services before the one it returns do not match; it
  reports not-found exactly when no service matches, and then ServeHTTP hands the request
  to the static server.
\<close>

theorem matchService_first_match:
  assumes returns: "list_all (valid_patterns e) (services p)
      \<or> (\<forall>pat. fst (matchService e req (services p)) \<noteq> MustCompilePanic pat)"
  shows "fst (matchService e req (services p)) =
           (case find (spec_matches e req) (services p) of
              Some s \<Rightarrow> Matched s | None \<Rightarrow> NoMatch)
       \<and> (\<forall>s. fst (matchService e req (services p)) = Matched s \<longrightarrow>
             (\<exists>pre post. services p = pre @ s # post \<and> spec_matches e req s
                \<and> (\<forall>t\<in>set pre. \<not> spec_matches e req t)))
       \<and> (fst (matchService e req (services p)) = NoMatch
            \<longleftrightarrow> (\<forall>t\<in>set (services p). \<not> spec_matches e req t))
       \<and> (Method req \<noteq> ''OPTIONS'' \<and> fst (matchService e req (services p)) = NoMatch \<longrightarrow>
             fst (ServeHTTP e p req) = ServedStatic (staticServer p))"
proof -
  have first: "fst (matchService e req (services p)) =
      (case find (spec_matches e req) (services p) of Some s \<Rightarrow> Matched s | None \<Rightarrow> NoMatch)"
    using returns matchService_find [of e "services p" req]
      matchService_find_returns [of e req "services p"]
    by blast
  have none: "fst (matchService e req (services p)) = NoMatch"
    if "\<forall>t\<in>set (services p). \<not> spec_matches e req t"
  proof -
    from that have "find (spec_matches e req) (services p) = None"
      by (simp add: find_None_iff)
    with first show ?thesis by simp
  qed
  show ?thesis
    using first none matchService_Matched_split [of e req "services p"]
      matchService_NoMatch [of e req "services p"] ServeHTTP_NoMatch [of req e p]
    by blast
qed

text \<open>
  At a list whose patterns compile: a request that both services match gets the first, a
  request that neither matches goes to the static server. At a list whose second pattern
  does not compile, matchService does not panic on a request that the first service
  matches.
\<close>

theorem matchService_first_match_witness:
  "list_all (valid_patterns (sample_env Open)) (services routed_proxy)
   \<and> fst (matchService (sample_env Open) special_request (services routed_proxy))
       = Matched alpha_service
   \<and> fst (ServeHTTP (sample_env Open) routed_proxy beta_request)
       = ServedStatic NotFoundHandler
   \<and> \<not> list_all (valid_patterns (sample_env Open)) [alpha_service, broken_service]
   \<and> fst (matchService (sample_env Open) special_request [alpha_service, broken_service])
       = Matched alpha_service"
  using matchService_first_match [of "sample_env Open" routed_proxy special_request]
    matchService_first_match [of "sample_env Open" routed_proxy beta_request]
    matchService_first_match [of "sample_env Open"
      "sample_proxy challenger [alpha_service, broken_service]" special_request]
  by (simp add: sample_simps)

text \<open>
  Claim C3 as stated fails on a list with a pattern that does not compile: the second
  service matches the request and the first does not, and matchService returns neither
  the second service nor not-found.
\<close>

theorem matchService_invalid_pattern_counterexample:
  "fst (matchService (sample_env Open) data_request [broken_service, alpha_service])
       = MustCompilePanic ''(''
   \<and> spec_matches (sample_env Open) data_request alpha_service
   \<and> \<not> spec_matches (sample_env Open) data_request broken_service"
  by (simp add: sample_simps)

text \<open>
  Claim C10: matchService compiles the patterns of the services it visits with
  regexp.MustCompile on every call. When the services before \<open>s\<close> compile and do not
  match, and the host pattern of \<open>s\<close> does not compile, or its host pattern matches and
  its path pattern is not empty and does not compile, matchService panics, and with it
  ServeHTTP: neither not-found nor an error is returned.
\<close>

theorem matchService_MustCompile_panic:
  assumes before: "\<forall>t\<in>set pre. valid_patterns e t \<and> \<not> spec_matches e req t"
    and bad: "MustCompile e (HostRegexp s) = None
        \<or> (pattern_matches e (HostRegexp s) (Host req) \<and> PathRegexp s \<noteq> []
            \<and> MustCompile e (PathRegexp s) = None)"
    and list: "services p = pre @ s # post"
    and verb: "Method req \<noteq> ''OPTIONS''"
  shows "(\<exists>pat. fst (matchService e req (services p)) = MustCompilePanic pat
            \<and> (pat = HostRegexp s \<or> pat = PathRegexp s)
            \<and> MustCompile e pat = None
            \<and> fst (ServeHTTP e p req) = Panicked (''regexp: Compile: '' @ pat))
       \<and> fst (matchService e req (services p)) \<noteq> NoMatch"
proof -
  have skip: "fst (matchService e req (services p)) = fst (matchService e req (s # post))"
    using before list by (simp add: matchService_skip)
  from bad obtain pat where pat: "fst (matchService e req (s # post)) = MustCompilePanic pat"
    "pat = HostRegexp s \<or> pat = PathRegexp s" "MustCompile e pat = None"
    by (auto simp: pattern_matches_def split: option.splits)
  from pat(1) skip have "fst (matchService e req (services p)) = MustCompilePanic pat"
    by simp
  with pat(2,3) verb show ?thesis
    by (auto simp: ServeHTTP_MustCompilePanic)
qed

text \<open>
  With the broken host pattern behind a service that does not match, and with a broken
  path pattern behind a host pattern that matches.
\<close>

theorem matchService_MustCompile_panic_witness:
  "fst (matchService (sample_env Open) data_request
         [special_service, broken_service, alpha_service])
       = MustCompilePanic ''(''
   \<and> fst (ServeHTTP (sample_env Open)
         (sample_proxy challenger [special_service, broken_service, alpha_service])
         data_request)
       = Panicked ''regexp: Compile: (''
   \<and> fst (matchService (sample_env Open) data_request [broken_path_service, alpha_service])
       = MustCompilePanic ''(''"
  using matchService_MustCompile_panic [of "[special_service]" "sample_env Open"
      data_request broken_service
      "sample_proxy challenger [special_service, broken_service, alpha_service]"
      "[alpha_service]"]
    matchService_MustCompile_panic [of "[]" "sample_env Open"
      data_request broken_path_service
      "sample_proxy challenger [broken_path_service, alpha_service]" "[alpha_service]"]
  by (simp add: sample_simps)

subsection \<open>sendDirectResponse\<close>

lemma Itoa_codes_Internal: "Itoa codes_Internal = ''13''"
  by (simp add: Itoa_def codes_Internal_def digit_def)

lemma Header_Get_addCorsHeaders:
  "Header_Get (addCorsHeaders h) hdrContentType = Header_Get h hdrContentType"
  by (simp add: addCorsHeaders_def Header_Add_def Header_Get_def hdrContentType_def)

lemmas serve_simps =
  ServeHTTP_def dispatch_def handlePaymentRequired_def sendDirectResponse_def http_Error_def
  addCorsHeaders_def Header_Set_def Header_Add_def Header_Get_def hdrContentType_def
  hdrTypeGrpc_def IsOn_def IsFreebie_def StatusOK_def StatusPaymentRequired_def
  StatusInternalServerError_def Itoa_codes_Internal Let_def

lemma sendDirectResponse_shape:
  "Header_Get (Header r') hdrContentType = Header_Get (Header r) hdrContentType \<Longrightarrow>
   direct_shape r (sendDirectResponse w r' c m)"
  by (simp add: direct_shape_def sendDirectResponse_def http_Error_def Header_Set_def
      Itoa_codes_Internal)

lemma handlePaymentRequired_shape:
  "fst (handlePaymentRequired p w r name price) = Responded resp \<Longrightarrow> direct_shape r resp"
  by (auto simp: handlePaymentRequired_def Let_def Header_Get_addCorsHeaders
      intro!: sendDirectResponse_shape split: sum.splits option.splits)

lemma dispatch_shape:
  "fst (dispatch e p r target) = Responded resp \<Longrightarrow> direct_shape r resp"
  by (auto simp: dispatch_def Let_def intro!: sendDirectResponse_shape
      dest: handlePaymentRequired_shape split: sum.splits option.splits if_splits)

lemma ServeHTTP_shape:
  "fst (ServeHTTP e p r) = Responded resp \<Longrightarrow> direct_shape r resp"
  by (auto simp: ServeHTTP_def intro!: sendDirectResponse_shape dest: dispatch_shape
      split: if_splits prod.splits matched.splits)

text \<open>
  Claim C5: a direct response to a request whose Content-Type starts with
  \<open>application/grpc\<close> carries Grpc-Status, always \<open>codes.Internal\<close> (13) whatever the
  status code, and Grpc-Message with the message, and has no body; to any other request
  it is a text/plain body with the message. Both carry the status code given. Every
  response that ServeHTTP sends by itself has one of the two encodings.
\<close>

theorem sendDirectResponse_encoding:
  "(if prefix hdrTypeGrpc (Header_Get (Header r) hdrContentType) then
      RespHeader (sendDirectResponse w r statusCode errInfo) ''Grpc-Status''
        = Some [Itoa codes_Internal]
      \<and> Itoa codes_Internal = ''13''
      \<and> RespHeader (sendDirectResponse w r statusCode errInfo) ''Grpc-Message''
        = Some [errInfo]
      \<and> Body (sendDirectResponse w r statusCode errInfo) = []
    else
      Body (sendDirectResponse w r statusCode errInfo) = errInfo @ [CHR 0x0A]
      \<and> RespHeader (sendDirectResponse w r statusCode errInfo) ''Content-Type''
        = Some [''text/plain; charset=utf-8''])
   \<and> StatusCode (sendDirectResponse w r statusCode errInfo) = statusCode
   \<and> (\<forall>resp. fst (ServeHTTP e p r) = Responded resp \<longrightarrow> direct_shape r resp)"
  using ServeHTTP_shape [of e p r]
  by (simp add: sendDirectResponse_def http_Error_def Header_Set_def Itoa_codes_Internal)

text \<open>A 402 to a gRPC client and to another client, alone and through ServeHTTP.\<close>

theorem sendDirectResponse_encoding_witness:
  "RespHeader (sendDirectResponse Map.empty rpc_request 402 ''payment required'')
       ''Grpc-Status'' = Some [''13'']
   \<and> RespHeader (sendDirectResponse Map.empty rpc_request 402 ''payment required'')
       ''Grpc-Message'' = Some [''payment required'']
   \<and> Body (sendDirectResponse Map.empty rpc_request 402 ''payment required'') = []
   \<and> StatusCode (sendDirectResponse Map.empty rpc_request 402 ''payment required'') = 402
   \<and> Body (sendDirectResponse Map.empty data_request 402 ''payment required'')
       = ''payment required'' @ [CHR 0x0A]
   \<and> StatusCode (sendDirectResponse Map.empty data_request 402 ''payment required'') = 402
   \<and> status_of (fst (ServeHTTP (sample_env Paid) alpha_proxy rpc_request)) = Some 402
   \<and> header_of (fst (ServeHTTP (sample_env Paid) alpha_proxy rpc_request)) ''Grpc-Status''
       = Some [''13'']
   \<and> body_of (fst (ServeHTTP (sample_env Paid) alpha_proxy rpc_request)) = Some []
   \<and> body_of (fst (ServeHTTP (sample_env Paid) alpha_proxy data_request))
       = Some (''payment required'' @ [CHR 0x0A])"
  using sendDirectResponse_encoding [of rpc_request Map.empty 402 "''payment required''"
      "sample_env Paid" alpha_proxy]
    sendDirectResponse_encoding [of data_request Map.empty 402 "''payment required''"
      "sample_env Paid" alpha_proxy]
  by (simp add: sample_simps serve_simps direct_shape_def)

subsection \<open>handlePaymentRequired\<close>

lemma foldl_Header_Add:
  "foldl (\<lambda>h x. Header_Add h name x) (h(name \<mapsto> xs)) vs = h(name \<mapsto> xs @ vs)"
  by (induction vs arbitrary: xs) (simp_all add: Header_Add_def)

lemma setChallengeHeader_Cons:
  "setChallengeHeader w ((name, v # vs) # rest) = setChallengeHeader (w(name \<mapsto> v # vs)) rest"
  using foldl_Header_Add [of name w "[v]" vs] by (simp add: Header_Set_def)

lemma setChallengeHeader_Some:
  "list_all (\<lambda>(name, vs). vs \<noteq> []) ch \<Longrightarrow>
   setChallengeHeader w ch = Some (w ++ map_of (rev ch))"
proof (induction ch arbitrary: w)
  case Nil
  then show ?case by simp
next
  case (Cons a ch)
  obtain name vs where a: "a = (name, vs)" by (cases a)
  with Cons.prems obtain v vs' where vs: "vs = v # vs'" by (cases vs) auto
  from Cons.prems have rest: "list_all (\<lambda>(name, vs). vs \<noteq> []) ch" by simp
  have step: "setChallengeHeader w (a # ch) = setChallengeHeader (w(name \<mapsto> vs)) ch"
    by (simp only: a vs setChallengeHeader_Cons)
  have merged: "w(name \<mapsto> vs) ++ map_of (rev ch) = w ++ map_of (rev (a # ch))"
    by (rule ext) (simp add: a map_add_def split: option.splits)
  have ih: "setChallengeHeader (w(name \<mapsto> vs)) ch = Some (w(name \<mapsto> vs) ++ map_of (rev ch))"
    by (rule Cons.IH [OF rest])
  show ?case by (simp only: step ih merged)
qed

lemma dom_Header_Set: "dom (Header_Set h k v) = insert k (dom h)"
  by (simp add: Header_Set_def)

lemma Header_Set_other: "n \<noteq> k \<Longrightarrow> Header_Set h k v n = h n"
  by (simp add: Header_Set_def)

lemma sendDirectResponse_keeps:
  "dom h \<subseteq> dom (RespHeader (sendDirectResponse h r c m))"
  by (auto simp: sendDirectResponse_def http_Error_def dom_Header_Set)

lemma sendDirectResponse_other:
  "n \<notin> sendDirectResponse_names r \<Longrightarrow> RespHeader (sendDirectResponse h r c m) n = h n"
  by (simp add: sendDirectResponse_names_def sendDirectResponse_def http_Error_def
      Header_Set_other split: if_splits)

lemma sendDirectResponse_names_addCorsHeaders:
  "sendDirectResponse_names (r\<lparr>Header := addCorsHeaders (Header r)\<rparr>)
     = sendDirectResponse_names r"
  by (simp add: sendDirectResponse_names_def Header_Get_addCorsHeaders)

lemma StatusCode_sendDirectResponse: "StatusCode (sendDirectResponse h r c m) = c"
  by (simp add: sendDirectResponse_def http_Error_def)

lemma handlePaymentRequired_challenge:
  assumes fresh: "FreshChallengeHeader (authenticator p) (r\<lparr>Header := addCorsHeaders (Header r)\<rparr>)
      name price = Inr ch"
    and vals: "list_all (\<lambda>(n, vs). vs \<noteq> []) ch"
  shows "\<exists>resp. fst (handlePaymentRequired p w r name price) = Responded resp
      \<and> StatusCode resp = StatusPaymentRequired
      \<and> fst ` set ch \<subseteq> dom (RespHeader resp)
      \<and> (distinct (map fst ch) \<longrightarrow>
          (\<forall>(n, vs) \<in> set ch.
             n \<notin> sendDirectResponse_names r
             \<longrightarrow> RespHeader resp n = Some vs))"
proof -
  let ?w' = "w ++ map_of (rev ch)"
  let ?r' = "r\<lparr>Header := addCorsHeaders (Header r)\<rparr>"
  let ?resp = "sendDirectResponse ?w' ?r' StatusPaymentRequired ''payment required''"
  have out: "fst (handlePaymentRequired p w r name price) = Responded ?resp"
    using fresh setChallengeHeader_Some [OF vals, of w]
    by (simp add: handlePaymentRequired_def Let_def)
  have code: "StatusCode ?resp = StatusPaymentRequired"
    by (rule StatusCode_sendDirectResponse)
  have "fst ` set ch \<subseteq> dom ?w'"
    by (simp add: dom_map_of_conv_image_fst)
  then have present: "fst ` set ch \<subseteq> dom (RespHeader ?resp)"
    using sendDirectResponse_keeps [of ?w' ?r' StatusPaymentRequired "''payment required''"]
    by (rule subset_trans)
  have exact: "?w' n = Some vs" if "distinct (map fst ch)" "(n, vs) \<in> set ch" for n vs
  proof -
    from that(1) have "distinct (map fst (rev ch))" by (simp add: rev_map [symmetric])
    with that(2) have "map_of (rev ch) n = Some vs" by simp
    then show ?thesis by (simp add: map_add_def)
  qed
  have exactly: "distinct (map fst ch) \<longrightarrow>
          (\<forall>(n, vs) \<in> set ch.
             n \<notin> sendDirectResponse_names r
             \<longrightarrow> RespHeader ?resp n = Some vs)"
  proof (intro impI ballI)
    fix x assume d: "distinct (map fst ch)" and x: "x \<in> set ch"
    obtain n vs where nv: "x = (n, vs)" by (cases x)
    show "case x of (n, vs) \<Rightarrow>
        n \<notin> sendDirectResponse_names r
        \<longrightarrow> RespHeader ?resp n = Some vs"
      unfolding nv prod.case
    proof
      assume "n \<notin> sendDirectResponse_names r"
      then have "n \<notin> sendDirectResponse_names ?r'"
        by (simp add: sendDirectResponse_names_addCorsHeaders)
      then have "RespHeader ?resp n = ?w' n" by (rule sendDirectResponse_other)
      also from x nv have "?w' n = Some vs" by (intro exact [OF d]) simp
      finally show "RespHeader ?resp n = Some vs" .
    qed
  qed
  from out code present exactly show ?thesis by (intro exI [of _ ?resp] conjI)
qed

lemma handlePaymentRequired_header:
  assumes fresh: "FreshChallengeHeader (authenticator p) (r\<lparr>Header := addCorsHeaders (Header r)\<rparr>)
      name price = Inr ch"
    and vals: "list_all (\<lambda>(n, vs). vs \<noteq> []) ch"
    and other: "n \<notin> sendDirectResponse_names r"
  shows "\<exists>resp. fst (handlePaymentRequired p w r name price) = Responded resp
      \<and> StatusCode resp = StatusPaymentRequired
      \<and> RespHeader resp n = (w ++ map_of (rev ch)) n"
proof -
  from other have "n \<notin> sendDirectResponse_names (r\<lparr>Header := addCorsHeaders (Header r)\<rparr>)"
    by (simp add: sendDirectResponse_names_addCorsHeaders)
  then show ?thesis
    using fresh setChallengeHeader_Some [OF vals, of w]
    by (simp add: handlePaymentRequired_def Let_def sendDirectResponse_other
        StatusCode_sendDirectResponse)
qed

lemma handlePaymentRequired_error:
  assumes "FreshChallengeHeader (authenticator p) (r\<lparr>Header := addCorsHeaders (Header r)\<rparr>)
      name price = Inl err"
  shows "fst (handlePaymentRequired p w r name price) =
      Responded (sendDirectResponse w (r\<lparr>Header := addCorsHeaders (Header r)\<rparr>)
        StatusInternalServerError ''challenge failure'')"
  using assms by (simp add: handlePaymentRequired_def Let_def)

subsection \<open>ServeHTTP\<close>

lemma calls_matchService: "calls (snd (matchService e r svcs)) = []"
  by (induction svcs) (auto simp: calls_def split: option.splits)

lemma ServeHTTP_Matched:
  assumes "Method r \<noteq> ''OPTIONS''" and "fst (matchService e r (services p)) = Matched target"
  shows "ServeHTTP e p r =
    (fst (dispatch e p r target),
     snd (matchService e r (services p)) @ snd (dispatch e p r target) @ [logRequest r])"
proof -
  obtain m evs where m: "matchService e r (services p) = (m, evs)"
    by (cases "matchService e r (services p)")
  obtain out devs where d: "dispatch e p r target = (out, devs)"
    by (cases "dispatch e p r target")
  from assms(2) m have "m = Matched target" by simp
  with assms(1) m d show ?thesis by (simp add: ServeHTTP_def)
qed

lemma calls_handlePaymentRequired:
  "calls (snd (handlePaymentRequired p w r name price)) = [FreshChallengeHeaderCall name price]"
  by (simp add: handlePaymentRequired_def Let_def calls_def addCorsHeaders_log_def
      split: sum.splits option.splits)

lemma dispatch_Paid:
  assumes "AuthRequired e target r = Paid"
  shows "dispatch e p r target =
    (if Accept (authenticator p) (Header r) (Name target)
     then (Forwarded (proxyBackend p), [AcceptCall (Name target)])
     else apsnd ((@) [AcceptCall (Name target), Log Infof ''Authentication failed. Sending 402.''])
       (handlePaymentRequired p Map.empty r (Name target) (Price target)))"
  using assms by (simp add: dispatch_def IsOn_def Let_def)

lemma dispatch_LimitedFree:
  assumes "AuthRequired e target r = LimitedFree"
  shows "dispatch e p r target =
    (if Accept (authenticator p) (Header r) (Name target)
     then (Forwarded (proxyBackend p), [AcceptCall (Name target)])
     else
       (case CanPass (freebieDb target) r (RemoteIP e (RemoteAddr r)) of
          Inl err \<Rightarrow>
            (Responded (sendDirectResponse Map.empty r StatusInternalServerError
               ''freebie DB failure''),
             [AcceptCall (Name target), CanPassCall (RemoteIP e (RemoteAddr r)),
              Log Errorf (''Error querying freebie db: '' @ err)])
        | Inr ok \<Rightarrow>
            if \<not> ok then
              apsnd ((@) [AcceptCall (Name target), CanPassCall (RemoteIP e (RemoteAddr r))])
                (handlePaymentRequired p Map.empty r (Name target) (Price target))
            else
              (case TallyFreebie (freebieDb target) r (RemoteIP e (RemoteAddr r)) of
                 Some err \<Rightarrow>
                   (Responded (sendDirectResponse Map.empty r StatusInternalServerError
                      ''freebie DB failure''),
                    [AcceptCall (Name target), CanPassCall (RemoteIP e (RemoteAddr r)),
                     TallyFreebieCall (RemoteIP e (RemoteAddr r)),
                     Log Errorf (''Error updating freebie db: '' @ err)])
               | None \<Rightarrow>
                   (Forwarded (proxyBackend p),
                    [AcceptCall (Name target), CanPassCall (RemoteIP e (RemoteAddr r)),
                     TallyFreebieCall (RemoteIP e (RemoteAddr r))]))))"
  using assms by (simp add: dispatch_def IsOn_def IsFreebie_def Let_def)


lemma calls_ServeHTTP_Matched:
  assumes "Method r \<noteq> ''OPTIONS''" and "fst (matchService e r (services p)) = Matched target"
  shows "calls (snd (ServeHTTP e p r)) = calls (snd (dispatch e p r target))"
  using calls_matchService [of e r "services p"]
  by (simp add: ServeHTTP_Matched [OF assms] calls_def logRequest_def)

lemma fst_ServeHTTP_Matched:
  assumes "Method r \<noteq> ''OPTIONS''" and "fst (matchService e r (services p)) = Matched target"
  shows "fst (ServeHTTP e p r) = fst (dispatch e p r target)"
  by (simp add: ServeHTTP_Matched [OF assms])

lemma set_ServeHTTP_Matched:
  assumes "Method r \<noteq> ''OPTIONS''" and "fst (matchService e r (services p)) = Matched target"
  shows "set (snd (dispatch e p r target)) \<subseteq> set (snd (ServeHTTP e p r))"
  by (auto simp: ServeHTTP_Matched [OF assms])

lemma sendDirectResponse_failure:
  "StatusCode (sendDirectResponse Map.empty r StatusInternalServerError m) = 500
   \<and> (if prefix hdrTypeGrpc (Header_Get (Header r) hdrContentType)
      then RespHeader (sendDirectResponse Map.empty r StatusInternalServerError m)
             ''Grpc-Message'' = Some [m]
      else Body (sendDirectResponse Map.empty r StatusInternalServerError m) = m @ [CHR 0x0A])"
  by (simp add: sendDirectResponse_def http_Error_def Header_Set_def
      StatusInternalServerError_def)

lemma ServeHTTP_OPTIONS:
  "Method r = ''OPTIONS'' \<Longrightarrow>
   ServeHTTP e p r =
     (Responded (sendDirectResponse (addCorsHeaders Map.empty) r StatusOK []),
      [addCorsHeaders_log, logRequest r])"
  by (simp add: ServeHTTP_def)

text \<open>
  Claim C2, with the case in which the authenticator cannot produce the challenge: for
  a request matched to a service whose auth level is Paid, if the authenticator accepts
  the headers the request is handed to the reverse proxy. If it rejects them and
  FreshChallengeHeader returns a header set (a map: its names are distinct) in which
  every name has a value, the response has status 402 and holds every name of the set;
  a name has exactly the values of the set, the first set and the others added, unless
  it is one of the names that sendDirectResponse sets afterwards. If FreshChallengeHeader
  returns an error, the response is the direct response 500 \<open>challenge failure\<close>. The last
  part is the merge from any header \<open>w\<close> of the response writer: the values of the set
  replace those of \<open>w\<close>.
\<close>

theorem ServeHTTP_Paid:
  assumes verb: "Method r \<noteq> ''OPTIONS''"
    and target: "fst (matchService e r (services p)) = Matched target"
    and level: "AuthRequired e target r = Paid"
  shows "(Accept (authenticator p) (Header r) (Name target) \<longrightarrow>
            fst (ServeHTTP e p r) = Forwarded (proxyBackend p))
       \<and> (\<forall>ch. \<not> Accept (authenticator p) (Header r) (Name target)
            \<and> FreshChallengeHeader (authenticator p) (r\<lparr>Header := addCorsHeaders (Header r)\<rparr>)
                (Name target) (Price target) = Inr ch
            \<and> list_all (\<lambda>(n, vs). vs \<noteq> []) ch \<and> distinct (map fst ch) \<longrightarrow>
            (\<exists>resp. fst (ServeHTTP e p r) = Responded resp
               \<and> StatusCode resp = 402
               \<and> fst ` set ch \<subseteq> dom (RespHeader resp)
               \<and> (\<forall>(n, vs) \<in> set ch.
                    n \<notin> sendDirectResponse_names r
                    \<longrightarrow> RespHeader resp n = Some vs)))
       \<and> (\<forall>err. \<not> Accept (authenticator p) (Header r) (Name target)
            \<and> FreshChallengeHeader (authenticator p) (r\<lparr>Header := addCorsHeaders (Header r)\<rparr>)
                (Name target) (Price target) = Inl err \<longrightarrow>
            (\<exists>resp. fst (ServeHTTP e p r) = Responded resp \<and> StatusCode resp = 500
               \<and> resp = sendDirectResponse Map.empty (r\<lparr>Header := addCorsHeaders (Header r)\<rparr>)
                    StatusInternalServerError ''challenge failure''))
       \<and> (\<forall>w ch. FreshChallengeHeader (authenticator p)
                (r\<lparr>Header := addCorsHeaders (Header r)\<rparr>) (Name target) (Price target) = Inr ch
            \<and> list_all (\<lambda>(n, vs). vs \<noteq> []) ch \<and> distinct (map fst ch) \<longrightarrow>
            (\<exists>resp. fst (handlePaymentRequired p w r (Name target) (Price target))
                 = Responded resp
               \<and> (\<forall>(n, vs) \<in> set ch.
                    n \<notin> sendDirectResponse_names r \<longrightarrow> RespHeader resp n = Some vs)))"
proof (intro conjI allI impI)
  fix w ch
  assume "FreshChallengeHeader (authenticator p)
        (r\<lparr>Header := addCorsHeaders (Header r)\<rparr>) (Name target) (Price target) = Inr ch
      \<and> list_all (\<lambda>(n, vs). vs \<noteq> []) ch \<and> distinct (map fst ch)"
  with handlePaymentRequired_challenge [of p r "Name target" "Price target" ch w]
  show "\<exists>resp. fst (handlePaymentRequired p w r (Name target) (Price target)) = Responded resp
      \<and> (\<forall>(n, vs) \<in> set ch.
           n \<notin> sendDirectResponse_names r \<longrightarrow> RespHeader resp n = Some vs)"
    by blast
next
  assume "Accept (authenticator p) (Header r) (Name target)"
  then show "fst (ServeHTTP e p r) = Forwarded (proxyBackend p)"
    by (simp add: ServeHTTP_Matched [OF verb target] dispatch_Paid [OF level])
next
  fix ch
  assume a: "\<not> Accept (authenticator p) (Header r) (Name target)
      \<and> FreshChallengeHeader (authenticator p) (r\<lparr>Header := addCorsHeaders (Header r)\<rparr>)
          (Name target) (Price target) = Inr ch
      \<and> list_all (\<lambda>(n, vs). vs \<noteq> []) ch \<and> distinct (map fst ch)"
  then have out: "fst (ServeHTTP e p r) =
      fst (handlePaymentRequired p Map.empty r (Name target) (Price target))"
    by (simp add: ServeHTTP_Matched [OF verb target] dispatch_Paid [OF level])
  from a handlePaymentRequired_challenge [of p r "Name target" "Price target" ch Map.empty]
  show "\<exists>resp. fst (ServeHTTP e p r) = Responded resp
      \<and> StatusCode resp = 402
      \<and> fst ` set ch \<subseteq> dom (RespHeader resp)
      \<and> (\<forall>(n, vs) \<in> set ch.
           n \<notin> sendDirectResponse_names r
           \<longrightarrow> RespHeader resp n = Some vs)"
    unfolding out StatusPaymentRequired_def by blast
next
  fix err
  assume a: "\<not> Accept (authenticator p) (Header r) (Name target)
      \<and> FreshChallengeHeader (authenticator p) (r\<lparr>Header := addCorsHeaders (Header r)\<rparr>)
          (Name target) (Price target) = Inl err"
  then have out: "fst (ServeHTTP e p r) =
      fst (handlePaymentRequired p Map.empty r (Name target) (Price target))"
    by (simp add: ServeHTTP_Matched [OF verb target] dispatch_Paid [OF level])
  from a show "\<exists>resp. fst (ServeHTTP e p r) = Responded resp \<and> StatusCode resp = 500
      \<and> resp = sendDirectResponse Map.empty (r\<lparr>Header := addCorsHeaders (Header r)\<rparr>)
           StatusInternalServerError ''challenge failure''"
    unfolding out
    by (simp add: handlePaymentRequired_error StatusCode_sendDirectResponse
        StatusInternalServerError_def)
qed

text \<open>
  A request with credentials, a request without to which the challenge has a name with
  two values, and a request without when the authenticator fails to produce the
  challenge.
\<close>

theorem ServeHTTP_Paid_witness:
  "fst (matchService (sample_env Paid) data_request (services alpha_proxy))
       = Matched alpha_service
   \<and> fst (ServeHTTP (sample_env Paid) alpha_proxy paid_request) = Forwarded sample_backend
   \<and> status_of (fst (ServeHTTP (sample_env Paid) two_value_proxy data_request)) = Some 402
   \<and> header_of (fst (ServeHTTP (sample_env Paid) two_value_proxy data_request))
         ''WWW-Authenticate''
       = Some [''LSAT macaroon=abc, invoice=lnbc1'', ''L402 macaroon=abc'']
   \<and> header_of (fst (ServeHTTP (sample_env Paid) two_value_proxy data_request))
         ''Cache-Control''
       = Some [''no-store'']
   \<and> status_of (fst (ServeHTTP (sample_env Paid) failing_proxy data_request)) = Some 500"
  using ServeHTTP_Paid [of paid_request "sample_env Paid" alpha_proxy alpha_service]
    ServeHTTP_Paid [of data_request "sample_env Paid" two_value_proxy alpha_service]
    ServeHTTP_Paid [of data_request "sample_env Paid" failing_proxy alpha_service]
  by (simp add: sample_simps serve_simps)

text \<open>
  Claim C2 as stated fails when FreshChallengeHeader returns an error: the service is
  Paid and the authenticator rejects the headers, and the status is 500, not 402.
\<close>

theorem ServeHTTP_Paid_challenge_error_counterexample:
  "fst (matchService (sample_env Paid) data_request (services failing_proxy))
       = Matched alpha_service
   \<and> AuthRequired (sample_env Paid) alpha_service data_request = Paid
   \<and> \<not> Accept (authenticator failing_proxy) (Header data_request) (Name alpha_service)
   \<and> status_of (fst (ServeHTTP (sample_env Paid) failing_proxy data_request)) = Some 500
   \<and> status_of (fst (ServeHTTP (sample_env Paid) failing_proxy data_request)) \<noteq> Some 402
   \<and> body_of (fst (ServeHTTP (sample_env Paid) failing_proxy data_request))
       = Some (''challenge failure'' @ [CHR 0x0A])"
  by (simp add: sample_simps serve_simps)


text \<open>
  Claim C1, with the error cases: for a request matched to a service whose auth level is
  LimitedFree, if the authenticator accepts the headers the request is handed to the
  reverse proxy and the only call made is \<open>Accept\<close>. If it rejects them and CanPass
  returns true, TallyFreebie is called, and the request is handed to the reverse proxy
  if TallyFreebie returns no error, and answered with 500 if it returns one. If it
  rejects them and CanPass returns false, TallyFreebie is not called and the challenge is
  asked for: the response is 402 with the names of the challenge if FreshChallengeHeader
  returns a header set in which every name has a value, and 500 if it returns an error.
\<close>

theorem ServeHTTP_LimitedFree:
  assumes verb: "Method r \<noteq> ''OPTIONS''"
    and target: "fst (matchService e r (services p)) = Matched target"
    and level: "AuthRequired e target r = LimitedFree"
  shows "(Accept (authenticator p) (Header r) (Name target) \<longrightarrow>
            fst (ServeHTTP e p r) = Forwarded (proxyBackend p)
            \<and> calls (snd (ServeHTTP e p r)) = [AcceptCall (Name target)])
       \<and> (\<not> Accept (authenticator p) (Header r) (Name target)
            \<and> CanPass (freebieDb target) r (RemoteIP e (RemoteAddr r)) = Inr True \<longrightarrow>
            calls (snd (ServeHTTP e p r)) =
              [AcceptCall (Name target), CanPassCall (RemoteIP e (RemoteAddr r)),
               TallyFreebieCall (RemoteIP e (RemoteAddr r))]
            \<and> fst (ServeHTTP e p r) =
              (case TallyFreebie (freebieDb target) r (RemoteIP e (RemoteAddr r)) of
                 None \<Rightarrow> Forwarded (proxyBackend p)
               | Some err \<Rightarrow>
                   Responded (sendDirectResponse Map.empty r StatusInternalServerError
                     ''freebie DB failure'')))
       \<and> (\<not> Accept (authenticator p) (Header r) (Name target)
            \<and> CanPass (freebieDb target) r (RemoteIP e (RemoteAddr r)) = Inr False \<longrightarrow>
            calls (snd (ServeHTTP e p r)) =
              [AcceptCall (Name target), CanPassCall (RemoteIP e (RemoteAddr r)),
               FreshChallengeHeaderCall (Name target) (Price target)]
            \<and> (\<forall>ch. FreshChallengeHeader (authenticator p)
                      (r\<lparr>Header := addCorsHeaders (Header r)\<rparr>) (Name target) (Price target)
                    = Inr ch
                  \<and> list_all (\<lambda>(n, vs). vs \<noteq> []) ch \<longrightarrow>
                  (\<exists>resp. fst (ServeHTTP e p r) = Responded resp \<and> StatusCode resp = 402
                     \<and> fst ` set ch \<subseteq> dom (RespHeader resp)))
            \<and> (\<forall>err. FreshChallengeHeader (authenticator p)
                      (r\<lparr>Header := addCorsHeaders (Header r)\<rparr>) (Name target) (Price target)
                    = Inl err \<longrightarrow>
                  (\<exists>resp. fst (ServeHTTP e p r) = Responded resp \<and> StatusCode resp = 500)))"
proof (intro conjI impI allI)
  assume "Accept (authenticator p) (Header r) (Name target)"
  then show "fst (ServeHTTP e p r) = Forwarded (proxyBackend p)"
    and "calls (snd (ServeHTTP e p r)) = [AcceptCall (Name target)]"
    unfolding fst_ServeHTTP_Matched [OF verb target] calls_ServeHTTP_Matched [OF verb target]
      dispatch_LimitedFree [OF level]
    by (simp_all add: calls_def)
next
  assume a: "\<not> Accept (authenticator p) (Header r) (Name target)
      \<and> CanPass (freebieDb target) r (RemoteIP e (RemoteAddr r)) = Inr True"
  then show "calls (snd (ServeHTTP e p r)) =
      [AcceptCall (Name target), CanPassCall (RemoteIP e (RemoteAddr r)),
       TallyFreebieCall (RemoteIP e (RemoteAddr r))]"
    unfolding calls_ServeHTTP_Matched [OF verb target] dispatch_LimitedFree [OF level]
    by (simp add: calls_def split: option.splits)
  from a show "fst (ServeHTTP e p r) =
      (case TallyFreebie (freebieDb target) r (RemoteIP e (RemoteAddr r)) of
         None \<Rightarrow> Forwarded (proxyBackend p)
       | Some err \<Rightarrow>
           Responded (sendDirectResponse Map.empty r StatusInternalServerError
             ''freebie DB failure''))"
    by (simp add: fst_ServeHTTP_Matched [OF verb target] dispatch_LimitedFree [OF level]
        split: option.splits)
next
  assume a: "\<not> Accept (authenticator p) (Header r) (Name target)
      \<and> CanPass (freebieDb target) r (RemoteIP e (RemoteAddr r)) = Inr False"
  then show "calls (snd (ServeHTTP e p r)) =
      [AcceptCall (Name target), CanPassCall (RemoteIP e (RemoteAddr r)),
       FreshChallengeHeaderCall (Name target) (Price target)]"
    using calls_handlePaymentRequired [of p Map.empty r "Name target" "Price target"]
    unfolding calls_ServeHTTP_Matched [OF verb target] dispatch_LimitedFree [OF level]
    by (simp add: calls_def)
  from a have out: "fst (ServeHTTP e p r) =
      fst (handlePaymentRequired p Map.empty r (Name target) (Price target))"
    by (simp add: fst_ServeHTTP_Matched [OF verb target] dispatch_LimitedFree [OF level])
  {
    fix ch
    assume "FreshChallengeHeader (authenticator p) (r\<lparr>Header := addCorsHeaders (Header r)\<rparr>)
          (Name target) (Price target) = Inr ch
        \<and> list_all (\<lambda>(n, vs). vs \<noteq> []) ch"
    with handlePaymentRequired_challenge [of p r "Name target" "Price target" ch Map.empty]
    show "\<exists>resp. fst (ServeHTTP e p r) = Responded resp \<and> StatusCode resp = 402
        \<and> fst ` set ch \<subseteq> dom (RespHeader resp)"
      unfolding out StatusPaymentRequired_def by blast
  }
  {
    fix err
    assume "FreshChallengeHeader (authenticator p) (r\<lparr>Header := addCorsHeaders (Header r)\<rparr>)
          (Name target) (Price target) = Inl err"
    then show "\<exists>resp. fst (ServeHTTP e p r) = Responded resp \<and> StatusCode resp = 500"
      unfolding out
      by (simp add: handlePaymentRequired_error StatusCode_sendDirectResponse
          StatusInternalServerError_def)
  }
qed

text \<open>
  A request with credentials, a request without while the store lets it pass, and a
  request without when the store does not.
\<close>

theorem ServeHTTP_LimitedFree_witness:
  "fst (matchService (sample_env LimitedFree) data_request (services (freebie_proxy open_db)))
       = Matched (freebie_service open_db)
   \<and> fst (ServeHTTP (sample_env LimitedFree) (freebie_proxy open_db) paid_request)
       = Forwarded sample_backend
   \<and> calls (snd (ServeHTTP (sample_env LimitedFree) (freebie_proxy open_db) paid_request))
       = [AcceptCall ''freebie'']
   \<and> fst (ServeHTTP (sample_env LimitedFree) (freebie_proxy open_db) data_request)
       = Forwarded sample_backend
   \<and> calls (snd (ServeHTTP (sample_env LimitedFree) (freebie_proxy open_db) data_request))
       = [AcceptCall ''freebie'', CanPassCall ''203.0.113.7'',
          TallyFreebieCall ''203.0.113.7'']
   \<and> status_of
         (fst (ServeHTTP (sample_env LimitedFree) (freebie_proxy exhausted_db) data_request))
       = Some 402
   \<and> calls (snd (ServeHTTP (sample_env LimitedFree) (freebie_proxy exhausted_db) data_request))
       = [AcceptCall ''freebie'', CanPassCall ''203.0.113.7'',
          FreshChallengeHeaderCall ''freebie'' 100]"
  using ServeHTTP_LimitedFree [of paid_request "sample_env LimitedFree"
      "freebie_proxy open_db" "freebie_service open_db"]
    ServeHTTP_LimitedFree [of data_request "sample_env LimitedFree"
      "freebie_proxy open_db" "freebie_service open_db"]
    ServeHTTP_LimitedFree [of data_request "sample_env LimitedFree"
      "freebie_proxy exhausted_db" "freebie_service exhausted_db"]
  by (simp add: sample_simps serve_simps calls_def addCorsHeaders_log_def logRequest_def)

text \<open>
  Claim C1 as stated fails when TallyFreebie returns an error: the authenticator rejects
  the headers, CanPass returns true and TallyFreebie is called, and the request is
  answered with 500 instead of being forwarded.
\<close>

theorem ServeHTTP_LimitedFree_tally_error_counterexample:
  "fst (matchService (sample_env LimitedFree) data_request
         (services (freebie_proxy untallied_db)))
       = Matched (freebie_service untallied_db)
   \<and> AuthRequired (sample_env LimitedFree) (freebie_service untallied_db) data_request
       = LimitedFree
   \<and> \<not> Accept (authenticator (freebie_proxy untallied_db)) (Header data_request)
         (Name (freebie_service untallied_db))
   \<and> CanPass (freebieDb (freebie_service untallied_db)) data_request ''203.0.113.7''
       = Inr True
   \<and> calls (snd (ServeHTTP (sample_env LimitedFree) (freebie_proxy untallied_db) data_request))
       = [AcceptCall ''freebie'', CanPassCall ''203.0.113.7'',
          TallyFreebieCall ''203.0.113.7'']
   \<and> fst (ServeHTTP (sample_env LimitedFree) (freebie_proxy untallied_db) data_request)
       \<noteq> Forwarded (proxyBackend (freebie_proxy untallied_db))
   \<and> status_of
         (fst (ServeHTTP (sample_env LimitedFree) (freebie_proxy untallied_db) data_request))
       = Some 500
   \<and> body_of
         (fst (ServeHTTP (sample_env LimitedFree) (freebie_proxy untallied_db) data_request))
       = Some (''freebie DB failure'' @ [CHR 0x0A])"
  by (simp add: sample_simps serve_simps calls_def addCorsHeaders_log_def logRequest_def)

text \<open>
  Claim C6, with the message of the code: for a request matched to a LimitedFree service
  whose headers the authenticator rejects, if CanPass returns an error, or CanPass returns
  true and TallyFreebie returns an error, the response is the direct response with status
  500 and the message \<open>freebie DB failure\<close> (in the body, or in Grpc-Message for a gRPC
  client), and the error is logged at error level.
\<close>

theorem ServeHTTP_freebie_error:
  assumes verb: "Method r \<noteq> ''OPTIONS''"
    and target: "fst (matchService e r (services p)) = Matched target"
    and level: "AuthRequired e target r = LimitedFree"
    and reject: "\<not> Accept (authenticator p) (Header r) (Name target)"
  shows "(\<forall>err. CanPass (freebieDb target) r (RemoteIP e (RemoteAddr r)) = Inl err \<longrightarrow>
            fst (ServeHTTP e p r) =
              Responded (sendDirectResponse Map.empty r StatusInternalServerError
                ''freebie DB failure'')
            \<and> Log Errorf (''Error querying freebie db: '' @ err) \<in> set (snd (ServeHTTP e p r)))
       \<and> (\<forall>err. CanPass (freebieDb target) r (RemoteIP e (RemoteAddr r)) = Inr True
            \<and> TallyFreebie (freebieDb target) r (RemoteIP e (RemoteAddr r)) = Some err \<longrightarrow>
            fst (ServeHTTP e p r) =
              Responded (sendDirectResponse Map.empty r StatusInternalServerError
                ''freebie DB failure'')
            \<and> Log Errorf (''Error updating freebie db: '' @ err) \<in> set (snd (ServeHTTP e p r)))
       \<and> StatusCode (sendDirectResponse Map.empty r StatusInternalServerError
            ''freebie DB failure'') = 500
       \<and> (if prefix hdrTypeGrpc (Header_Get (Header r) hdrContentType)
          then RespHeader (sendDirectResponse Map.empty r StatusInternalServerError
                 ''freebie DB failure'') ''Grpc-Message'' = Some [''freebie DB failure'']
          else Body (sendDirectResponse Map.empty r StatusInternalServerError
                 ''freebie DB failure'') = ''freebie DB failure'' @ [CHR 0x0A])"
  using reject sendDirectResponse_failure [of r "''freebie DB failure''"]
    set_ServeHTTP_Matched [OF verb target]
  by (auto simp: fst_ServeHTTP_Matched [OF verb target] dispatch_LimitedFree [OF level])


text \<open>A store whose CanPass fails, and one whose TallyFreebie fails.\<close>

theorem ServeHTTP_freebie_error_witness:
  "fst (matchService (sample_env LimitedFree) data_request
         (services (freebie_proxy closed_db)))
       = Matched (freebie_service closed_db)
   \<and> status_of
         (fst (ServeHTTP (sample_env LimitedFree) (freebie_proxy closed_db) data_request))
       = Some 500
   \<and> body_of
         (fst (ServeHTTP (sample_env LimitedFree) (freebie_proxy closed_db) data_request))
       = Some (''freebie DB failure'' @ [CHR 0x0A])
   \<and> Log Errorf ''Error querying freebie db: store closed''
       \<in> set (snd (ServeHTTP (sample_env LimitedFree) (freebie_proxy closed_db) data_request))
   \<and> status_of
         (fst (ServeHTTP (sample_env LimitedFree) (freebie_proxy untallied_db) data_request))
       = Some 500
   \<and> Log Errorf ''Error updating freebie db: store closed''
       \<in> set (snd (ServeHTTP (sample_env LimitedFree) (freebie_proxy untallied_db)
                  data_request))"
  using ServeHTTP_freebie_error [of data_request "sample_env LimitedFree"
      "freebie_proxy closed_db" "freebie_service closed_db"]
    ServeHTTP_freebie_error [of data_request "sample_env LimitedFree"
      "freebie_proxy untallied_db" "freebie_service untallied_db"]
  by (simp add: sample_simps serve_simps calls_def addCorsHeaders_log_def logRequest_def)

text \<open>
  Claim C6 as stated fails on the message: when CanPass returns an error the body is
  \<open>freebie DB failure\<close> and does not contain \<open>quota lookup failure\<close>.
\<close>

theorem ServeHTTP_freebie_error_message_counterexample:
  "fst (matchService (sample_env LimitedFree) data_request
         (services (freebie_proxy closed_db)))
       = Matched (freebie_service closed_db)
   \<and> AuthRequired (sample_env LimitedFree) (freebie_service closed_db) data_request
       = LimitedFree
   \<and> CanPass (freebieDb (freebie_service closed_db)) data_request ''203.0.113.7''
       = Inl ''store closed''
   \<and> status_of
         (fst (ServeHTTP (sample_env LimitedFree) (freebie_proxy closed_db) data_request))
       = Some 500
   \<and> body_of
         (fst (ServeHTTP (sample_env LimitedFree) (freebie_proxy closed_db) data_request))
       = Some (''freebie DB failure'' @ [CHR 0x0A])
   \<and> body_of
         (fst (ServeHTTP (sample_env LimitedFree) (freebie_proxy closed_db) data_request))
       \<noteq> Some (''quota lookup failure'' @ [CHR 0x0A])
   \<and> body_of
         (fst (ServeHTTP (sample_env LimitedFree) (freebie_proxy closed_db) data_request))
       \<noteq> Some ''quota lookup failure''
   \<and> header_of
         (fst (ServeHTTP (sample_env LimitedFree) (freebie_proxy closed_db) data_request))
         ''Grpc-Message''
       = None"
  by (simp add: sample_simps serve_simps)


text \<open>
  Claim C4 at an OPTIONS request of a client that is not a gRPC client: the status is
  200, the CORS headers are set and no call is made to the authenticator or the freebie
  store, but the body is not empty: it is the newline that \<open>http.Error\<close> prints after
  the empty message.
\<close>

theorem ServeHTTP_OPTIONS_body:
  "status_of (fst (ServeHTTP (sample_env Open) alpha_proxy options_request)) = Some 200
   \<and> header_of (fst (ServeHTTP (sample_env Open) alpha_proxy options_request))
         ''Access-Control-Allow-Origin''
       = Some [''*'']
   \<and> header_of (fst (ServeHTTP (sample_env Open) alpha_proxy options_request))
         ''Content-Type''
       = Some [''text/plain; charset=utf-8'']
   \<and> body_of (fst (ServeHTTP (sample_env Open) alpha_proxy options_request))
       = Some [CHR 0x0A]
   \<and> body_of (fst (ServeHTTP (sample_env Open) alpha_proxy options_request)) \<noteq> Some []
   \<and> calls (snd (ServeHTTP (sample_env Open) alpha_proxy options_request)) = []"
  by (simp add: sample_simps serve_simps calls_def addCorsHeaders_log_def logRequest_def)

text \<open>
  Claim C9 at a request to a Paid service whose headers are rejected, with an
  authenticator whose challenge is the WWW-Authenticate field alone: the 402 response
  carries none of the four CORS fields. handlePaymentRequired adds them to the
  header of the request, not to that of the response, which gets the fields of the
  challenge and those of sendDirectResponse only (\<open>handlePaymentRequired_header\<close>).
\<close>

theorem handlePaymentRequired_no_cors:
  "status_of (fst (ServeHTTP (sample_env Paid) alpha_proxy data_request)) = Some 402
   \<and> header_of (fst (ServeHTTP (sample_env Paid) alpha_proxy data_request))
         ''WWW-Authenticate''
       = Some [''LSAT macaroon=abc, invoice=lnbc1'']
   \<and> header_of (fst (ServeHTTP (sample_env Paid) alpha_proxy data_request))
         ''Access-Control-Allow-Origin''
       = None
   \<and> header_of (fst (ServeHTTP (sample_env Paid) alpha_proxy data_request))
         ''Access-Control-Allow-Methods''
       = None
   \<and> header_of (fst (ServeHTTP (sample_env Paid) alpha_proxy data_request))
         ''Access-Control-Expose-Headers''
       = None
   \<and> header_of (fst (ServeHTTP (sample_env Paid) alpha_proxy data_request))
         ''Access-Control-Allow-Headers''
       = None"
  by (simp add: sample_simps serve_simps)


subsection \<open>UpdateServices\<close>

lemma UpdateServices_services: "services (snd (UpdateServices e p svcs)) = services p"
  by (simp add: UpdateServices_def split: option.splits sum.splits)

text \<open>
  Claim C7 at a proxy whose services are \<open>[alpha_service]\<close>, after UpdateServices with
  \<open>[beta_service]\<close> has returned no error and installed the certificate of the new
  service: the services of the proxy are still \<open>[alpha_service]\<close>; a request that the new
  list matches is handed to the static server, and a request that only the old list
  matches is still forwarded.
\<close>

theorem UpdateServices_old_services:
  "fst (UpdateServices (sample_env Open) alpha_proxy [beta_service]) = None
   \<and> RootCAs (Transport (proxyBackend updated_proxy)) = [''-----BEGIN CERTIFICATE-----'']
   \<and> services updated_proxy = [alpha_service]
   \<and> fst (matchService (sample_env Open) beta_request [beta_service]) = Matched beta_service
   \<and> fst (matchService (sample_env Open) beta_request (services updated_proxy)) = NoMatch
   \<and> fst (ServeHTTP (sample_env Open) updated_proxy beta_request)
       = ServedStatic NotFoundHandler
   \<and> fst (matchService (sample_env Open) data_request [beta_service]) = NoMatch
   \<and> fst (ServeHTTP (sample_env Open) updated_proxy data_request)
       = Forwarded (proxyBackend updated_proxy)"
  by (simp add: sample_simps serve_simps UpdateServices_def certPool_def)

lemma certPoolFrom_bad:
  assumes "s \<in> set svcs" and "TLSCertPath s \<noteq> []"
    and "(\<exists>err. ReadFile e (TLSCertPath s) = Inl err)
       \<or> (\<exists>b. ReadFile e (TLSCertPath s) = Inr b \<and> (\<forall>cp. \<not> fst (AppendCertsFromPEM e cp b)))"
  shows "\<exists>err. certPoolFrom e cp svcs = Inl err"
  using assms(1)
proof (induction svcs arbitrary: cp)
  case Nil
  then show ?case by simp
next
  case (Cons a svcs)
  show ?case
  proof (cases "a = s")
    case True
    from assms(3) show ?thesis
    proof
      assume "\<exists>err. ReadFile e (TLSCertPath s) = Inl err"
      with True assms(2) show ?thesis by auto
    next
      assume "\<exists>b. ReadFile e (TLSCertPath s) = Inr b
          \<and> (\<forall>cp. \<not> fst (AppendCertsFromPEM e cp b))"
      then obtain b where b: "ReadFile e (TLSCertPath s) = Inr b"
        and "\<not> fst (AppendCertsFromPEM e cp b)" by blast
      then obtain cp' where "AppendCertsFromPEM e cp b = (False, cp')"
        by (cases "AppendCertsFromPEM e cp b") auto
      with True assms(2) b show ?thesis by simp
    qed
  next
    case False
    with Cons.prems have "s \<in> set svcs" by simp
    then have "\<exists>err. certPoolFrom e cp' svcs = Inl err" for cp' by (rule Cons.IH)
    then show ?thesis
      by (auto split: sum.splits prod.splits bool.splits)
  qed
qed

text \<open>
  Claim C8: if a service of the new list has a certificate path whose file cannot be
  read, or whose contents AppendCertsFromPEM does not append, UpdateServices returns an
  error and the proxy, with its reverse proxy and its transport, is as it was.
\<close>

theorem UpdateServices_bad_certificate:
  assumes "s \<in> set svcs" and "TLSCertPath s \<noteq> []"
    and "(\<exists>err. ReadFile e (TLSCertPath s) = Inl err)
       \<or> (\<exists>b. ReadFile e (TLSCertPath s) = Inr b \<and> (\<forall>cp. \<not> fst (AppendCertsFromPEM e cp b)))"
  shows "(\<exists>err. fst (UpdateServices e p svcs) = Some err)
       \<and> snd (UpdateServices e p svcs) = p
       \<and> proxyBackend (snd (UpdateServices e p svcs)) = proxyBackend p
       \<and> Transport (proxyBackend (snd (UpdateServices e p svcs))) = Transport (proxyBackend p)"
proof -
  from certPoolFrom_bad [OF assms, of "[]"] obtain err where "certPool e svcs = Inl err"
    by (auto simp: certPool_def)
  then show ?thesis
    by (simp add: UpdateServices_def split: option.splits)
qed

text \<open>
  A certificate file that does not exist, and one that holds no certificate, each behind
  a service whose certificate is appended: the reverse proxy stays the one installed
  before. With the service of the good certificate alone, UpdateServices installs its
  pool.
\<close>

theorem UpdateServices_bad_certificate_witness:
  "fst (UpdateServices (sample_env Open) alpha_proxy
         [beta_service, bad_cert_service ''/etc/certs/missing.pem''])
       = Some ''open /etc/certs/missing.pem: no such file or directory''
   \<and> proxyBackend (snd (UpdateServices (sample_env Open) alpha_proxy
         [beta_service, bad_cert_service ''/etc/certs/missing.pem'']))
       = sample_backend
   \<and> fst (UpdateServices (sample_env Open) alpha_proxy
         [beta_service, bad_cert_service ''/etc/certs/notes.txt''])
       = Some ''credentials: failed to append certificate''
   \<and> proxyBackend (snd (UpdateServices (sample_env Open) alpha_proxy
         [beta_service, bad_cert_service ''/etc/certs/notes.txt'']))
       = sample_backend
   \<and> RootCAs (Transport (proxyBackend (snd (UpdateServices (sample_env Open) alpha_proxy
         [beta_service]))))
       = [''-----BEGIN CERTIFICATE-----'']"
  using UpdateServices_bad_certificate [of "bad_cert_service ''/etc/certs/missing.pem''"
      "[beta_service, bad_cert_service ''/etc/certs/missing.pem'']" "sample_env Open"
      alpha_proxy]
    UpdateServices_bad_certificate [of "bad_cert_service ''/etc/certs/notes.txt''"
      "[beta_service, bad_cert_service ''/etc/certs/notes.txt'']" "sample_env Open"
      alpha_proxy]
  by (simp add: sample_simps UpdateServices_def certPool_def)


end
